theory Spec2Isabelle
  imports Main "HOL-Library.Word" "HOL-Library.Signed_Division"
begin

section \<open>The chrono layer the clocks are written against\<close>

text \<open>
  All counts in the headers have type \<open>std::chrono::system_clock::rep\<close>,
  \<open>std::chrono::steady_clock::rep\<close>, \<open>std::int64_t\<close> or \<open>std::time_t\<close>: signed 64-bit
  integers on the targets Seastar builds for. They are modelled as 64-bit words read
  in two's complement by \<open>sint\<close>; \<open>+\<close>, \<open>-\<close> and \<open>*\<close> wrap around, which is what
  the compiled code does where C++ leaves signed overflow undefined.
\<close>

type_synonym rep = "64 word"

text \<open>A \<open>std::ratio<Num, Den>\<close> with positive numerator: the tick period in seconds.\<close>

type_synonym ratio = "nat \<times> nat"

definition milli :: ratio where
  "milli = (1, 1000)"

definition seconds :: ratio where
  "seconds = (1, 1)"

definition nano :: ratio where
  "nano = (1, 1000000000)"

text \<open>The \<open>/\<close> of C++ on signed 64-bit operands: the quotient is truncated towards zero.\<close>

definition div_trunc :: "rep \<Rightarrow> rep \<Rightarrow> rep" where
  "div_trunc a b = word_of_int (sint a sdiv sint b)"

text \<open>\<open>std::ratio_divide<R1, R2>\<close>, reduced to lowest terms.\<close>

definition ratio_divide :: "ratio \<Rightarrow> ratio \<Rightarrow> ratio" where
  "ratio_divide r1 r2 =
     (let n = fst r1 * snd r2; d = snd r1 * fst r2; g = gcd n d
      in (n div g, d div g))"

text \<open>
  \<open>std::chrono::duration_cast<ToDuration>(d)\<close> on the count of \<open>d\<close>, with the four
  cases of the standard: the conversion factor is the ratio of the two periods, the
  arithmetic is done in the common 64-bit signed type.
\<close>

definition duration_cast :: "ratio \<Rightarrow> ratio \<Rightarrow> rep \<Rightarrow> rep" where
  "duration_cast from_period to_period c =
     (let cf = ratio_divide from_period to_period; n = fst cf; d = snd cf
      in if n = 1 \<and> d = 1 then c
         else if d = 1 then c * of_nat n
         else if n = 1 then div_trunc c (of_nat d)
         else div_trunc (c * of_nat n) (of_nat d))"

section \<open>Calendar conversions of \<open>lowres_system_clock\<close>\<close>

text \<open>
  \<open>to_time_t\<close> and \<open>from_time_t\<close> are written identically in every version of the
  header (\<open>lowres_system_clock.hh\<close>, \<open>lowres_clocks.hh\<close> and both versions of
  \<open>lowres_clock.hh\<close>). A \<open>time_point\<close> is its count of milliseconds since the epoch.
\<close>

definition to_time_t :: "rep \<Rightarrow> rep" where
  "to_time_t t = duration_cast milli seconds t"

definition from_time_t :: "rep \<Rightarrow> rep" where
  "from_time_t t = duration_cast seconds milli t"

section \<open>The precise clocks and the periodic timer\<close>

text \<open>
  \<open>std::chrono::system_clock\<close> and \<open>std::chrono::steady_clock\<close> are the two base
  clocks. Their tick periods are fixed by the standard library, not by the headers, so
  every function that converts a base-clock count takes the periods as the parameter
  \<open>bp\<close> (\<open>BaseClock::period\<close>).
\<close>

datatype base_clock = system_clock | steady_clock

text \<open>
  What the timer can be asked to call: \<open>&lowres_clock_impl::update\<close>, or
  \<open>&clock_impl<BaseClock, ...>::update\<close> of one instantiation of the template.
\<close>

datatype callback = Impl_update | Clock_impl_update base_clock

text \<open>
  The effects of the refresher on its surroundings, in program order: a call of
  \<open>BaseClock::now()\<close>, a store into the atomic cell that caches a base clock, and the
  two calls on the timer (\<open>arm_periodic\<close> is recorded with the callback the timer
  holds at that moment).
\<close>

datatype effect =
    Clock_read base_clock
  | Store base_clock rep
  | Timer_set_callback callback
  | Timer_arm_periodic "callback option" rep

text \<open>
  The surroundings of the program: \<open>readings b i\<close> is the count
  \<open>b::now().time_since_epoch().count()\<close> of the \<open>i\<close>-th call of \<open>b::now()\<close>, \<open>reads b\<close>
  the number of calls made so far, \<open>trace\<close> the effects so far.
\<close>

record precise =
  readings :: "base_clock \<Rightarrow> nat \<Rightarrow> rep"
  reads :: "base_clock \<Rightarrow> nat"
  trace :: "effect list"

text \<open>\<open>BaseClock::now().time_since_epoch().count()\<close>.\<close>

definition clock_now :: "base_clock \<Rightarrow> 'a precise_scheme \<Rightarrow> rep \<times> 'a precise_scheme" where
  "clock_now b w =
     (readings w b (reads w b),
      w\<lparr>reads := (reads w)(b := Suc (reads w b)), trace := trace w @ [Clock_read b]\<rparr>)"

text \<open>The readings a base clock has produced so far, oldest first.\<close>

definition past_readings :: "base_clock \<Rightarrow> 'a precise_scheme \<Rightarrow> rep list" where
  "past_readings b w = map (readings w b) [0..<reads w b]"

text \<open>
  Modelled from the spec: the periodic-timer facility \<open>timer<>\<close> of \<open>timer.hh\<close>, which
  is not among the sources. \<open>set_callback(fn)\<close> stores the function to call,
  \<open>arm_periodic(period)\<close> arms the timer with a fixed period (here its count of
  milliseconds); a default-constructed timer holds no callback and is not armed.
\<close>

record timer =
  timer_callback :: "callback option"
  timer_period :: "rep option"

definition timer_init :: timer where
  "timer_init = \<lparr>timer_callback = None, timer_period = None\<rparr>"

definition set_callback :: "callback \<Rightarrow> timer \<Rightarrow> timer" where
  "set_callback f t = t\<lparr>timer_callback := Some f\<rparr>"

definition arm_periodic :: "rep \<Rightarrow> timer \<Rightarrow> timer" where
  "arm_periodic p t = t\<lparr>timer_period := Some p\<rparr>"

text \<open>\<open>_granularity\<close>: \<open>std::chrono::milliseconds(10)\<close> in every version.\<close>

definition granularity :: rep where
  "granularity = 10"

section \<open>\<open>lowres_clock.hh\<close>, first version: counts stored raw, converted when read\<close>

text \<open>
  The static state of \<open>lowres_clock_impl\<close>: the two atomic counters and the timer
  member of the one instance.
\<close>

record lowres_clock_impl = precise +
  system_count :: rep
  steady_count :: rep
  impl_timer :: timer

definition convert_count_to_time_point :: "(base_clock \<Rightarrow> ratio) \<Rightarrow> base_clock \<Rightarrow> rep \<Rightarrow> rep" where
  "convert_count_to_time_point bp b count = duration_cast (bp b) milli count"

definition system_now_v1 :: "(base_clock \<Rightarrow> ratio) \<Rightarrow> lowres_clock_impl \<Rightarrow> rep \<times> lowres_clock_impl" where
  "system_now_v1 bp w = (convert_count_to_time_point bp system_clock (system_count w), w)"

definition steady_now_v1 :: "(base_clock \<Rightarrow> ratio) \<Rightarrow> lowres_clock_impl \<Rightarrow> rep \<times> lowres_clock_impl" where
  "steady_now_v1 bp w = (convert_count_to_time_point bp steady_clock (steady_count w), w)"

definition store_system_count :: "rep \<Rightarrow> lowres_clock_impl \<Rightarrow> lowres_clock_impl" where
  "store_system_count v w = w\<lparr>system_count := v, trace := trace w @ [Store system_clock v]\<rparr>"

definition store_steady_count :: "rep \<Rightarrow> lowres_clock_impl \<Rightarrow> lowres_clock_impl" where
  "store_steady_count v w = w\<lparr>steady_count := v, trace := trace w @ [Store steady_clock v]\<rparr>"

definition update_v1 :: "lowres_clock_impl \<Rightarrow> lowres_clock_impl" where
  "update_v1 w =
     (let (system_count', w1) = clock_now system_clock w;
          (steady_count', w2) = clock_now steady_clock w1
      in store_steady_count steady_count' (store_system_count system_count' w2))"

definition impl_set_callback :: "lowres_clock_impl \<Rightarrow> lowres_clock_impl" where
  "impl_set_callback w =
     w\<lparr>impl_timer := set_callback Impl_update (impl_timer w),
       trace := trace w @ [Timer_set_callback Impl_update]\<rparr>"

definition impl_arm_periodic :: "lowres_clock_impl \<Rightarrow> lowres_clock_impl" where
  "impl_arm_periodic w =
     w\<lparr>impl_timer := arm_periodic granularity (impl_timer w),
       trace := trace w @ [Timer_arm_periodic (timer_callback (impl_timer w)) granularity]\<rparr>"

text \<open>The constructor \<open>lowres_clock_impl(private_token)\<close>.\<close>

definition lowres_clock_impl_v1 :: "lowres_clock_impl \<Rightarrow> lowres_clock_impl" where
  "lowres_clock_impl_v1 w = impl_arm_periodic (impl_set_callback (update_v1 w))"

definition lowres_clock_now_v1 :: "(base_clock \<Rightarrow> ratio) \<Rightarrow> lowres_clock_impl \<Rightarrow> rep \<times> lowres_clock_impl" where
  "lowres_clock_now_v1 bp w = steady_now_v1 bp w"

definition lowres_system_clock_now_v1 :: "(base_clock \<Rightarrow> ratio) \<Rightarrow> lowres_clock_impl \<Rightarrow> rep \<times> lowres_clock_impl" where
  "lowres_system_clock_now_v1 bp w = system_now_v1 bp w"

section \<open>\<open>lowres_clock.hh\<close>, second version: counts converted to milliseconds when stored\<close>

definition now_count :: "(base_clock \<Rightarrow> ratio) \<Rightarrow> base_clock \<Rightarrow> lowres_clock_impl \<Rightarrow> rep \<times> lowres_clock_impl" where
  "now_count bp b w = (let (c, w1) = clock_now b w in (duration_cast (bp b) milli c, w1))"

definition update_v2 :: "(base_clock \<Rightarrow> ratio) \<Rightarrow> lowres_clock_impl \<Rightarrow> lowres_clock_impl" where
  "update_v2 bp w =
     (let (system_count', w1) = now_count bp system_clock w;
          (steady_count', w2) = now_count bp steady_clock w1
      in store_steady_count steady_count' (store_system_count system_count' w2))"

definition system_now_v2 :: "lowres_clock_impl \<Rightarrow> rep \<times> lowres_clock_impl" where
  "system_now_v2 w = (system_count w, w)"

definition steady_now_v2 :: "lowres_clock_impl \<Rightarrow> rep \<times> lowres_clock_impl" where
  "steady_now_v2 w = (steady_count w, w)"

definition lowres_clock_impl_v2 :: "(base_clock \<Rightarrow> ratio) \<Rightarrow> lowres_clock_impl \<Rightarrow> lowres_clock_impl" where
  "lowres_clock_impl_v2 bp w = impl_arm_periodic (impl_set_callback (update_v2 bp w))"

definition lowres_clock_now_v2 :: "lowres_clock_impl \<Rightarrow> rep \<times> lowres_clock_impl" where
  "lowres_clock_now_v2 w = steady_now_v2 w"

definition lowres_system_clock_now_v2 :: "lowres_clock_impl \<Rightarrow> rep \<times> lowres_clock_impl" where
  "lowres_system_clock_now_v2 w = system_now_v2 w"

section \<open>\<open>lowres_clocks.hh\<close>: the template \<open>clock_impl\<close>, instantiated per base clock\<close>

text \<open>
  \<open>clock_impl<BaseClock, GranularityDuration, granularity_count>\<close> has one static
  \<open>_now\<close> and one timer per instantiation; the two instantiations are
  \<open>lowres_clock_impl\<close> (steady) and \<open>lowres_system_clock_impl\<close> (system), both with
  a granularity of 10 milliseconds.
\<close>

record clock_impl = precise +
  now_cell :: "base_clock \<Rightarrow> rep"
  clock_timer :: "base_clock \<Rightarrow> timer"

definition clock_impl_now :: "(base_clock \<Rightarrow> ratio) \<Rightarrow> base_clock \<Rightarrow> clock_impl \<Rightarrow> rep \<times> clock_impl" where
  "clock_impl_now bp b w = (let n = now_cell w b in (duration_cast (bp b) milli n, w))"

definition clock_impl_update :: "base_clock \<Rightarrow> clock_impl \<Rightarrow> clock_impl" where
  "clock_impl_update b w =
     (let (count, w1) = clock_now b w
      in w1\<lparr>now_cell := (now_cell w1)(b := count), trace := trace w1 @ [Store b count]\<rparr>)"

definition clock_impl_set_callback :: "base_clock \<Rightarrow> clock_impl \<Rightarrow> clock_impl" where
  "clock_impl_set_callback b w =
     w\<lparr>clock_timer := (clock_timer w)(b := set_callback (Clock_impl_update b) (clock_timer w b)),
       trace := trace w @ [Timer_set_callback (Clock_impl_update b)]\<rparr>"

definition clock_impl_arm_periodic :: "base_clock \<Rightarrow> clock_impl \<Rightarrow> clock_impl" where
  "clock_impl_arm_periodic b w =
     w\<lparr>clock_timer := (clock_timer w)(b := arm_periodic granularity (clock_timer w b)),
       trace := trace w @ [Timer_arm_periodic (timer_callback (clock_timer w b)) granularity]\<rparr>"

text \<open>The constructor \<open>clock_impl()\<close> of the instantiation for base clock \<open>b\<close>.\<close>

definition clock_impl_ctor :: "base_clock \<Rightarrow> clock_impl \<Rightarrow> clock_impl" where
  "clock_impl_ctor b w = clock_impl_arm_periodic b (clock_impl_set_callback b (clock_impl_update b w))"

definition lowres_clock_now_v3 :: "(base_clock \<Rightarrow> ratio) \<Rightarrow> clock_impl \<Rightarrow> rep \<times> clock_impl" where
  "lowres_clock_now_v3 bp w = clock_impl_now bp steady_clock w"

definition lowres_system_clock_now_v3 :: "(base_clock \<Rightarrow> ratio) \<Rightarrow> clock_impl \<Rightarrow> rep \<times> clock_impl" where
  "lowres_system_clock_now_v3 bp w = clock_impl_now bp system_clock w"

section \<open>\<open>lowres_system_clock.hh\<close>: the system clock derived from the steady one\<close>

text \<open>
  This header sits on the \<open>lowres_clock.hh\<close> whose \<open>lowres_clock_impl\<close> caches the
  steady clock only, in milliseconds, in \<open>_now\<close> (its \<open>update\<close> and constructor are
  declared there and defined elsewhere). \<open>_base\<close> and \<open>_ref\<close> are the static members
  of \<open>lowres_system_clock\<close>: a \<open>system_clock::duration\<close> and a \<open>lowres_clock::duration\<close>.
\<close>

record lowres_system_clock = precise +
  now_v0 :: rep
  base :: rep
  ref :: rep

definition lowres_clock_impl_now_v0 :: "lowres_system_clock \<Rightarrow> rep \<times> lowres_system_clock" where
  "lowres_clock_impl_now_v0 w = (let nr = now_v0 w in (nr, w))"

definition lowres_clock_now_v0 :: "lowres_system_clock \<Rightarrow> rep \<times> lowres_system_clock" where
  "lowres_clock_now_v0 w = lowres_clock_impl_now_v0 w"

definition lowres_system_clock_now_v0 :: "(base_clock \<Rightarrow> ratio) \<Rightarrow> lowres_system_clock \<Rightarrow> rep \<times> lowres_system_clock" where
  "lowres_system_clock_now_v0 bp w =
     (let (t, w1) = lowres_clock_now_v0 w;
          elapsed = t - ref w1
      in (duration_cast (bp system_clock) milli
            (base w1 + duration_cast milli (bp system_clock) elapsed), w1))"

section \<open>A client of the clocks\<close>

text \<open>
  A program using one version of the header makes calls of the public operations,
  interleaved with firings of the refresher's timer. \<open>step\<close> performs one of them and
  returns what the caller observes; \<open>run\<close> performs a sequence.
\<close>

datatype 'f call =
    Tick 'f
  | Lowres_now
  | Lowres_system_now
  | To_time_t rep
  | From_time_t rep

datatype obs =
    Steady_time rep
  | System_time rep
  | Calendar_seconds rep
  | Calendar_time rep

record ('f, 'w) clocks =
  on_tick :: "'f \<Rightarrow> 'w \<Rightarrow> 'w"
  steady_op :: "'w \<Rightarrow> rep \<times> 'w"
  system_op :: "'w \<Rightarrow> rep \<times> 'w"

fun step :: "('f, 'w) clocks \<Rightarrow> 'f call \<Rightarrow> 'w \<Rightarrow> obs list \<times> 'w" where
  "step V (Tick f) w = ([], on_tick V f w)"
| "step V Lowres_now w = (let (t, w1) = steady_op V w in ([Steady_time t], w1))"
| "step V Lowres_system_now w = (let (t, w1) = system_op V w in ([System_time t], w1))"
| "step V (To_time_t t) w = ([Calendar_seconds (to_time_t t)], w)"
| "step V (From_time_t s) w = ([Calendar_time (from_time_t s)], w)"

fun run :: "('f, 'w) clocks \<Rightarrow> 'f call list \<Rightarrow> 'w \<Rightarrow> obs list \<times> 'w" where
  "run V [] w = ([], w)"
| "run V (c # cs) w =
     (let (o1, w1) = step V c w; (os, w2) = run V cs w1 in (o1 @ os, w2))"

fun is_tick :: "'f call \<Rightarrow> bool" where
  "is_tick (Tick f) = True"
| "is_tick c = False"

fun steady_times :: "obs list \<Rightarrow> rep list" where
  "steady_times [] = []"
| "steady_times (Steady_time t # os) = t # steady_times os"
| "steady_times (x # os) = steady_times os"

definition clocks_v1 :: "(base_clock \<Rightarrow> ratio) \<Rightarrow> (unit, lowres_clock_impl) clocks" where
  "clocks_v1 bp =
     \<lparr>on_tick = (\<lambda>f. update_v1),
      steady_op = lowres_clock_now_v1 bp,
      system_op = lowres_system_clock_now_v1 bp\<rparr>"

definition clocks_v2 :: "(base_clock \<Rightarrow> ratio) \<Rightarrow> (unit, lowres_clock_impl) clocks" where
  "clocks_v2 bp =
     \<lparr>on_tick = (\<lambda>f. update_v2 bp),
      steady_op = lowres_clock_now_v2,
      system_op = lowres_system_clock_now_v2\<rparr>"

definition clocks_v3 :: "(base_clock \<Rightarrow> ratio) \<Rightarrow> (base_clock, clock_impl) clocks" where
  "clocks_v3 bp =
     \<lparr>on_tick = clock_impl_update,
      steady_op = lowres_clock_now_v3 bp,
      system_op = lowres_system_clock_now_v3 bp\<rparr>"

section \<open>Program states used as examples\<close>

text \<open>
  The state at static initialisation, before the refresher is constructed: the
  counters are zero, the timer is default-constructed, no clock has been read.
\<close>

definition static_init_impl :: "(base_clock \<Rightarrow> nat \<Rightarrow> rep) \<Rightarrow> lowres_clock_impl" where
  "static_init_impl r =
     \<lparr>readings = r, reads = (\<lambda>b. 0), trace = [],
      system_count = 0, steady_count = 0, impl_timer = timer_init\<rparr>"

definition static_init_clock_impl :: "(base_clock \<Rightarrow> nat \<Rightarrow> rep) \<Rightarrow> clock_impl" where
  "static_init_clock_impl r =
     \<lparr>readings = r, reads = (\<lambda>b. 0), trace = [],
      now_cell = (\<lambda>b. 0), clock_timer = (\<lambda>b. timer_init)\<rparr>"

text \<open>Both base clocks tick in nanoseconds, as in libstdc++.\<close>

definition nano_clocks :: "base_clock \<Rightarrow> ratio" where
  "nano_clocks b = nano"

text \<open>
  Precise clocks that read 7000000 ticks at the first call of \<open>now()\<close> and 19000000
  ticks at every later one.
\<close>

definition two_readings :: "base_clock \<Rightarrow> nat \<Rightarrow> rep" where
  "two_readings b i = (if i = 0 then 7000000 else 19000000)"

text \<open>
  A state of the \<open>lowres_system_clock.hh\<close> version, 10 milliseconds after
  initialisation: the system clock has been read once, for \<open>_base\<close>
  (1700000000 seconds after the epoch, in nanoseconds); \<open>_ref\<close> is the steady
  low-resolution time captured then, 5000 ms; the steady cache has since moved on to
  5010 ms.
\<close>

definition example_v0 :: lowres_system_clock where
  "example_v0 =
     \<lparr>readings = (\<lambda>b i. 1700000000000000000), reads = (\<lambda>b. 1), trace = [],
      now_v0 = 5010, base = 1700000000000000000, ref = 5000\<rparr>"

section \<open>Truncating division on integers and words\<close>

lemma sdiv_pos_divisor:
  fixes k d :: int
  assumes "0 < d"
  shows "k sdiv d = (if 0 \<le> k then k div d else - ((- k) div d))"
  using assms by (simp add: signed_divide_int_def sgn_if)

lemma div_nonneg_bounds:
  fixes x d :: int
  assumes "0 < d" "0 \<le> x"
  shows "0 \<le> x div d \<and> x div d \<le> x"
  using assms zdiv_mono2 [of x 1 d] by (simp add: pos_imp_zdiv_nonneg_iff)

lemma sdiv_between:
  fixes k d :: int
  assumes "0 < d"
  shows "min k 0 \<le> k sdiv d" and "k sdiv d \<le> max k 0"
proof -
  show "min k 0 \<le> k sdiv d"
  proof (cases "0 \<le> k")
    case True
    then show ?thesis
      using div_nonneg_bounds [of d k] assms by (simp add: sdiv_pos_divisor)
  next
    case False
    then show ?thesis
      using div_nonneg_bounds [of d "- k"] assms by (simp add: sdiv_pos_divisor)
  qed
  show "k sdiv d \<le> max k 0"
  proof (cases "0 \<le> k")
    case True
    then show ?thesis
      using div_nonneg_bounds [of d k] assms by (simp add: sdiv_pos_divisor)
  next
    case False
    then show ?thesis
      using div_nonneg_bounds [of d "- k"] assms by (simp add: sdiv_pos_divisor)
  qed
qed

lemma sdiv_mono:
  fixes k l d :: int
  assumes "0 < d" "k \<le> l"
  shows "k sdiv d \<le> l sdiv d"
proof -
  consider "0 \<le> k" | "k < 0" "0 \<le> l" | "l < 0" by linarith
  then show ?thesis
  proof cases
    case 1
    then show ?thesis using assms by (simp add: sdiv_pos_divisor zdiv_mono1)
  next
    case 2
    have "0 \<le> (- k) div d" using 2 assms div_nonneg_bounds [of d "- k"] by simp
    moreover have "0 \<le> l div d" using 2 assms div_nonneg_bounds [of d l] by simp
    ultimately show ?thesis using 2 assms by (simp add: sdiv_pos_divisor)
  next
    case 3
    have "(- l) div d \<le> (- k) div d" using assms by (intro zdiv_mono1) simp_all
    then show ?thesis using 3 assms by (simp add: sdiv_pos_divisor)
  qed
qed

lemma sdiv_mult_cancel:
  fixes s d :: int
  assumes "0 < d"
  shows "(s * d) sdiv d = s"
proof (cases "0 \<le> s")
  case True
  then have "0 \<le> s * d" using assms by simp
  then show ?thesis using assms by (simp add: sdiv_pos_divisor)
next
  case False
  then have "\<not> 0 \<le> s * d" using assms by (simp add: zero_le_mult_iff)
  moreover have "(- (s * d)) div d = - s" using assms by (simp flip: mult_minus_left)
  ultimately show ?thesis using assms by (simp add: sdiv_pos_divisor)
qed

lemma div_mult_nonneg_bounds:
  fixes x d :: int
  assumes "0 < d" "0 \<le> x"
  shows "0 \<le> x - (x div d) * d \<and> x - (x div d) * d < d \<and> 0 \<le> (x div d) * d"
proof -
  have "x - (x div d) * d = x mod d" by (simp add: minus_div_mult_eq_mod)
  moreover have "0 \<le> x mod d" "x mod d < d" using assms by simp_all
  moreover have "0 \<le> x div d" using assms by (simp add: pos_imp_zdiv_nonneg_iff)
  ultimately show ?thesis using assms by simp
qed

lemma sdiv_remainder:
  fixes k d :: int
  assumes "0 < d"
  shows "\<bar>k - (k sdiv d) * d\<bar> < d"
proof (cases "0 \<le> k")
  case True
  then show ?thesis
    using div_mult_nonneg_bounds [of d k] assms by (simp add: sdiv_pos_divisor)
next
  case False
  then show ?thesis
    using div_mult_nonneg_bounds [of d "- k"] assms by (simp add: sdiv_pos_divisor)
qed

lemma sdiv_mult_between:
  fixes k d :: int
  assumes "0 < d"
  shows "min k 0 \<le> (k sdiv d) * d" and "(k sdiv d) * d \<le> max k 0"
proof -
  show "min k 0 \<le> (k sdiv d) * d"
  proof (cases "0 \<le> k")
    case True
    then show ?thesis
      using div_mult_nonneg_bounds [of d k] assms by (simp add: sdiv_pos_divisor)
  next
    case False
    then show ?thesis
      using div_mult_nonneg_bounds [of d "- k"] assms by (simp add: sdiv_pos_divisor)
  qed
  show "(k sdiv d) * d \<le> max k 0"
  proof (cases "0 \<le> k")
    case True
    then show ?thesis
      using div_mult_nonneg_bounds [of d k] assms by (simp add: sdiv_pos_divisor)
  next
    case False
    then show ?thesis
      using div_mult_nonneg_bounds [of d "- k"] assms by (simp add: sdiv_pos_divisor)
  qed
qed

lemma sint_word_of_int_64:
  assumes "- (2 ^ 63) \<le> k" "k < 2 ^ 63"
  shows "sint (word_of_int k :: rep) = k"
  using assms by (simp add: sint_sbintrunc' signed_take_bit_int_eq_self)

lemma sint_range_64: "- (2 ^ 63) \<le> sint (a :: rep)" "sint (a :: rep) < 2 ^ 63"
  using sint_ge [of a] sint_lt [of a] by simp_all

lemma sint_of_nat_64:
  assumes "d < 2 ^ 63"
  shows "sint (of_nat d :: rep) = int d"
proof -
  have "int d < 2 ^ 63"
    using assms by (metis of_nat_less_iff of_nat_numeral of_nat_power)
  then have "sint (word_of_int (int d) :: rep) = int d"
    by (intro sint_word_of_int_64) simp_all
  then show ?thesis by simp
qed

lemma sint_div_trunc:
  assumes "0 < d" "d < 2 ^ 63"
  shows "sint (div_trunc a (of_nat d)) = sint a sdiv int d"
proof -
  have "min (sint a) 0 \<le> sint a sdiv int d" "sint a sdiv int d \<le> max (sint a) 0"
    using assms by (simp_all add: sdiv_between)
  then have "- (2 ^ 63) \<le> sint a sdiv int d" "sint a sdiv int d < 2 ^ 63"
    using sint_range_64 [of a] by linarith+
  then have "sint (word_of_int (sint a sdiv int d) :: rep) = sint a sdiv int d"
    by (rule sint_word_of_int_64)
  moreover have "sint (of_nat d :: rep) = int d"
    using assms(2) by (rule sint_of_nat_64)
  ultimately show ?thesis
    unfolding div_trunc_def by simp
qed

lemma to_time_t_eq: "to_time_t t = div_trunc t 1000"
  by (simp add: to_time_t_def duration_cast_def ratio_divide_def milli_def seconds_def)

lemma from_time_t_eq: "from_time_t s = s * 1000"
  by (simp add: from_time_t_def duration_cast_def ratio_divide_def milli_def seconds_def)

lemma sint_to_time_t: "sint (to_time_t t) = sint t sdiv 1000"
  using sint_div_trunc [of 1000 t] by (simp add: to_time_t_eq)

lemma sint_from_time_t:
  assumes "- (2 ^ 63) \<le> sint s * 1000" "sint s * 1000 < 2 ^ 63"
  shows "sint (from_time_t s) = sint s * 1000"
proof -
  have "sint (s * 1000) = signed_take_bit 63 (sint s * 1000)"
    using sint_word_mult [of s 1000] by simp
  also have "\<dots> = sint s * 1000"
    using assms by (intro signed_take_bit_int_eq_self) simp_all
  finally show ?thesis by (simp add: from_time_t_eq)
qed

section \<open>Calendar round trips\<close>

text \<open>
  C6. For every \<open>lowres_system_clock::time_point\<close> \<open>t\<close>, \<open>from_time_t (to_time_t t)\<close>
  is a time point less than one second (1000 ticks of one millisecond) away from \<open>t\<close>.
  The composition truncates the sub-second part of \<open>t\<close> away: its count is the count
  of \<open>t\<close> divided by 1000 with truncation towards zero, times 1000. It is not the
  identity: the time point 1700000000999 ms comes back as 1700000000000 ms.
\<close>

theorem from_time_t_to_time_t_within_second:
  "\<bar>sint t - sint (from_time_t (to_time_t t))\<bar> < 1000
   \<and> sint (from_time_t (to_time_t t)) = (sint t sdiv 1000) * 1000
   \<and> from_time_t (to_time_t 1700000000999) = 1700000000000
   \<and> from_time_t (to_time_t 1700000000999) \<noteq> 1700000000999"
proof -
  let ?q = "sint t sdiv 1000"
  have lo: "min (sint t) 0 \<le> ?q * 1000" and hi: "?q * 1000 \<le> max (sint t) 0"
    by (simp_all add: sdiv_mult_between)
  have "- (2 ^ 63) \<le> ?q * 1000" "?q * 1000 < 2 ^ 63"
    using lo hi sint_range_64 [of t] by linarith+
  then have exact: "sint (from_time_t (to_time_t t)) = ?q * 1000"
    using sint_from_time_t [of "to_time_t t"] by (simp add: sint_to_time_t)
  have near: "\<bar>sint t - ?q * 1000\<bar> < 1000"
    by (rule sdiv_remainder) simp
  have ex: "from_time_t (to_time_t 1700000000999) = 1700000000000"
    by (simp add: to_time_t_eq from_time_t_eq div_trunc_def signed_divide_int_def)
  have ne: "from_time_t (to_time_t 1700000000999) \<noteq> 1700000000999"
    unfolding ex by simp
  show ?thesis
    using exact near ex ne by simp
qed

text \<open>
  C10 (as amended). For every \<open>std::time_t\<close> value \<open>s\<close> whose millisecond count
  \<open>1000 * s\<close> fits the signed 64-bit count of a time point,
  \<open>to_time_t (from_time_t s)\<close> is \<open>s\<close> again.
\<close>

theorem to_time_t_from_time_t_in_range:
  assumes "- (2 ^ 63) \<le> sint s * 1000" and "sint s * 1000 < 2 ^ 63"
  shows "to_time_t (from_time_t s) = s"
proof -
  have "sint (to_time_t (from_time_t s)) = (sint s * 1000) sdiv 1000"
    using assms by (simp add: sint_to_time_t sint_from_time_t)
  also have "\<dots> = sint s"
    by (rule sdiv_mult_cancel) simp
  finally show ?thesis by (rule signed_word_eqI)
qed

theorem to_time_t_from_time_t_in_range_witness:
  "- (2 ^ 63) \<le> sint (1700000000 :: rep) * 1000
   \<and> sint (1700000000 :: rep) * 1000 < 2 ^ 63
   \<and> to_time_t (from_time_t 1700000000) = 1700000000"
proof -
  have lo: "- (2 ^ 63) \<le> sint (1700000000 :: rep) * 1000" by simp
  have hi: "sint (1700000000 :: rep) * 1000 < 2 ^ 63" by simp
  show ?thesis
    using lo hi to_time_t_from_time_t_in_range [OF lo hi] by simp
qed

text \<open>
  The round trip of C10 is not the identity on all of \<open>std::time_t\<close>: for
  \<open>s = 2 ^ 62\<close> seconds the product \<open>1000 * s\<close> leaves the 64-bit range, the stored
  count is 0 and the way back gives 0.
\<close>

theorem to_time_t_from_time_t_overflow:
  "to_time_t (from_time_t 4611686018427387904) \<noteq> 4611686018427387904"
  by (simp add: to_time_t_eq from_time_t_eq div_trunc_def signed_divide_int_def)

section \<open>Conversion of base-clock counts to milliseconds\<close>

lemma duration_cast_fine:
  assumes "fst (ratio_divide p milli) = 1"
    and "0 < snd (ratio_divide p milli)" and "snd (ratio_divide p milli) < 2 ^ 63"
  shows "sint (duration_cast p milli c) = sint c sdiv int (snd (ratio_divide p milli))"
proof (cases "snd (ratio_divide p milli) = 1")
  case True
  then show ?thesis using assms by (simp add: duration_cast_def Let_def sdiv_pos_divisor)
next
  case False
  then show ?thesis
    using assms sint_div_trunc [of "snd (ratio_divide p milli)" c]
    by (simp add: duration_cast_def Let_def)
qed

lemma duration_cast_mono:
  assumes "fst (ratio_divide p milli) = 1"
    and "0 < snd (ratio_divide p milli)" and "snd (ratio_divide p milli) < 2 ^ 63"
    and "a \<le>s b"
  shows "duration_cast p milli a \<le>s duration_cast p milli b"
  using assms by (simp add: word_sle_eq duration_cast_fine sdiv_mono)

lemma nano_to_milli: "ratio_divide nano milli = (1, 1000000)"
  by (simp add: ratio_divide_def nano_def milli_def)

lemma milli_to_nano: "ratio_divide milli nano = (1000000, 1)"
  by (simp add: ratio_divide_def nano_def milli_def)

lemma nano_to_milli_cast: "duration_cast nano milli c = div_trunc c 1000000"
  by (simp add: duration_cast_def nano_to_milli)

lemma milli_to_nano_cast: "duration_cast milli nano c = c * 1000000"
  by (simp add: duration_cast_def milli_to_nano)

section \<open>What the refresher and the accessors do to the state\<close>

lemma not_system_clock: "b \<noteq> system_clock \<longleftrightarrow> b = steady_clock"
  by (cases b) simp_all

lemma update_v1_fields:
  "system_count (update_v1 w) = readings w system_clock (reads w system_clock)"
  "steady_count (update_v1 w) = readings w steady_clock (reads w steady_clock)"
  "readings (update_v1 w) = readings w"
  "reads (update_v1 w) = (\<lambda>b. Suc (reads w b))"
  "impl_timer (update_v1 w) = impl_timer w"
  "trace (update_v1 w) = trace w @
     [Clock_read system_clock, Clock_read steady_clock,
      Store system_clock (readings w system_clock (reads w system_clock)),
      Store steady_clock (readings w steady_clock (reads w steady_clock))]"
  by (auto simp add: update_v1_def clock_now_def store_system_count_def store_steady_count_def
      fun_eq_iff not_system_clock)

lemma update_v2_fields:
  "system_count (update_v2 bp w) =
     duration_cast (bp system_clock) milli (readings w system_clock (reads w system_clock))"
  "steady_count (update_v2 bp w) =
     duration_cast (bp steady_clock) milli (readings w steady_clock (reads w steady_clock))"
  "readings (update_v2 bp w) = readings w"
  "reads (update_v2 bp w) = (\<lambda>b. Suc (reads w b))"
  "impl_timer (update_v2 bp w) = impl_timer w"
  "trace (update_v2 bp w) = trace w @
     [Clock_read system_clock, Clock_read steady_clock,
      Store system_clock
        (duration_cast (bp system_clock) milli (readings w system_clock (reads w system_clock))),
      Store steady_clock
        (duration_cast (bp steady_clock) milli (readings w steady_clock (reads w steady_clock)))]"
  by (auto simp add: update_v2_def now_count_def clock_now_def store_system_count_def
      store_steady_count_def fun_eq_iff not_system_clock)

lemma clock_impl_update_fields:
  "now_cell (clock_impl_update b w) = (now_cell w)(b := readings w b (reads w b))"
  "readings (clock_impl_update b w) = readings w"
  "reads (clock_impl_update b w) = (reads w)(b := Suc (reads w b))"
  "clock_timer (clock_impl_update b w) = clock_timer w"
  "trace (clock_impl_update b w) = trace w @ [Clock_read b, Store b (readings w b (reads w b))]"
  by (simp_all add: clock_impl_update_def clock_now_def)

lemma impl_ctor_parts:
  "system_count (impl_arm_periodic (impl_set_callback w)) = system_count w"
  "steady_count (impl_arm_periodic (impl_set_callback w)) = steady_count w"
  "readings (impl_arm_periodic (impl_set_callback w)) = readings w"
  "reads (impl_arm_periodic (impl_set_callback w)) = reads w"
  "impl_timer (impl_arm_periodic (impl_set_callback w)) =
     (impl_timer w)\<lparr>timer_callback := Some Impl_update, timer_period := Some granularity\<rparr>"
  "trace (impl_arm_periodic (impl_set_callback w)) = trace w @
     [Timer_set_callback Impl_update, Timer_arm_periodic (Some Impl_update) granularity]"
  by (simp_all add: impl_arm_periodic_def impl_set_callback_def set_callback_def arm_periodic_def)

lemma clock_impl_ctor_parts:
  "now_cell (clock_impl_arm_periodic b (clock_impl_set_callback b w)) = now_cell w"
  "readings (clock_impl_arm_periodic b (clock_impl_set_callback b w)) = readings w"
  "reads (clock_impl_arm_periodic b (clock_impl_set_callback b w)) = reads w"
  "trace (clock_impl_arm_periodic b (clock_impl_set_callback b w)) = trace w @
     [Timer_set_callback (Clock_impl_update b),
      Timer_arm_periodic (Some (Clock_impl_update b)) granularity]"
  by (simp_all add: clock_impl_arm_periodic_def clock_impl_set_callback_def set_callback_def
      arm_periodic_def)

lemma now_v1_values:
  "fst (lowres_clock_now_v1 bp w) = duration_cast (bp steady_clock) milli (steady_count w)"
  "fst (lowres_system_clock_now_v1 bp w) = duration_cast (bp system_clock) milli (system_count w)"
  "snd (lowres_clock_now_v1 bp w) = w"
  "snd (lowres_system_clock_now_v1 bp w) = w"
  by (simp_all add: lowres_clock_now_v1_def lowres_system_clock_now_v1_def steady_now_v1_def
      system_now_v1_def convert_count_to_time_point_def)

lemma now_v2_values:
  "fst (lowres_clock_now_v2 w) = steady_count w"
  "fst (lowres_system_clock_now_v2 w) = system_count w"
  "snd (lowres_clock_now_v2 w) = w"
  "snd (lowres_system_clock_now_v2 w) = w"
  by (simp_all add: lowres_clock_now_v2_def lowres_system_clock_now_v2_def steady_now_v2_def
      system_now_v2_def)

lemma now_v3_values:
  "fst (clock_impl_now bp b w) = duration_cast (bp b) milli (now_cell w b)"
  "snd (clock_impl_now bp b w) = w"
  "fst (lowres_clock_now_v3 bp w) = duration_cast (bp steady_clock) milli (now_cell w steady_clock)"
  "fst (lowres_system_clock_now_v3 bp w) = duration_cast (bp system_clock) milli (now_cell w system_clock)"
  "snd (lowres_clock_now_v3 bp w) = w"
  "snd (lowres_system_clock_now_v3 bp w) = w"
  by (simp_all add: lowres_clock_now_v3_def lowres_system_clock_now_v3_def clock_impl_now_def)

lemma ctor_v1_fields:
  "system_count (lowres_clock_impl_v1 w) = readings w system_clock (reads w system_clock)"
  "steady_count (lowres_clock_impl_v1 w) = readings w steady_clock (reads w steady_clock)"
  "readings (lowres_clock_impl_v1 w) = readings w"
  "reads (lowres_clock_impl_v1 w) = (\<lambda>b. Suc (reads w b))"
  by (simp_all add: lowres_clock_impl_v1_def impl_ctor_parts update_v1_fields)

lemma ctor_v2_fields:
  "system_count (lowres_clock_impl_v2 bp w) =
     duration_cast (bp system_clock) milli (readings w system_clock (reads w system_clock))"
  "steady_count (lowres_clock_impl_v2 bp w) =
     duration_cast (bp steady_clock) milli (readings w steady_clock (reads w steady_clock))"
  "readings (lowres_clock_impl_v2 bp w) = readings w"
  "reads (lowres_clock_impl_v2 bp w) = (\<lambda>b. Suc (reads w b))"
  by (simp_all add: lowres_clock_impl_v2_def impl_ctor_parts update_v2_fields)

lemma ctor_v3_fields:
  "now_cell (clock_impl_ctor b u) = (now_cell u)(b := readings u b (reads u b))"
  "readings (clock_impl_ctor b u) = readings u"
  "reads (clock_impl_ctor b u) = (reads u)(b := Suc (reads u b))"
  by (simp_all add: clock_impl_ctor_def clock_impl_ctor_parts clock_impl_update_fields)

section \<open>The refresh\<close>

text \<open>
  C2 (as amended). Every call of \<open>update()\<close> reads each precise clock of its refresher
  once (the wall and the steady clock for \<open>lowres_clock_impl\<close>, the one base clock of
  the instantiation for \<open>clock_impl\<close>) and stores what it read into the atomic cell
  of that clock. The second version of \<open>lowres_clock.hh\<close> stores the readings
  converted to millisecond counts. The first version of \<open>lowres_clock.hh\<close> and
  \<open>lowres_clocks.hh\<close> store the raw base-clock counts, and it is \<open>now()\<close> that
  converts them: in every version \<open>now()\<close> after a refresh returns the millisecond
  count of the reading.
\<close>

theorem update_reads_once_and_stores:
  "trace (update_v1 w) = trace w @
     [Clock_read system_clock, Clock_read steady_clock,
      Store system_clock (readings w system_clock (reads w system_clock)),
      Store steady_clock (readings w steady_clock (reads w steady_clock))]
   \<and> reads (update_v1 w) = (\<lambda>b. Suc (reads w b))
   \<and> system_count (update_v1 w) = readings w system_clock (reads w system_clock)
   \<and> steady_count (update_v1 w) = readings w steady_clock (reads w steady_clock)
   \<and> fst (lowres_system_clock_now_v1 bp (update_v1 w)) =
       duration_cast (bp system_clock) milli (readings w system_clock (reads w system_clock))
   \<and> fst (lowres_clock_now_v1 bp (update_v1 w)) =
       duration_cast (bp steady_clock) milli (readings w steady_clock (reads w steady_clock))
   \<and> trace (update_v2 bp w) = trace w @
     [Clock_read system_clock, Clock_read steady_clock,
      Store system_clock
        (duration_cast (bp system_clock) milli (readings w system_clock (reads w system_clock))),
      Store steady_clock
        (duration_cast (bp steady_clock) milli (readings w steady_clock (reads w steady_clock)))]
   \<and> reads (update_v2 bp w) = (\<lambda>b. Suc (reads w b))
   \<and> system_count (update_v2 bp w) =
       duration_cast (bp system_clock) milli (readings w system_clock (reads w system_clock))
   \<and> steady_count (update_v2 bp w) =
       duration_cast (bp steady_clock) milli (readings w steady_clock (reads w steady_clock))
   \<and> trace (clock_impl_update b u) = trace u @ [Clock_read b, Store b (readings u b (reads u b))]
   \<and> reads (clock_impl_update b u) = (reads u)(b := Suc (reads u b))
   \<and> now_cell (clock_impl_update b u) = (now_cell u)(b := readings u b (reads u b))
   \<and> fst (clock_impl_now bp b (clock_impl_update b u)) =
       duration_cast (bp b) milli (readings u b (reads u b))"
  by (simp add: update_v1_fields update_v2_fields clock_impl_update_fields now_v1_values
      now_v3_values)

text \<open>
  The first version of \<open>update()\<close> does not store a millisecond count: with clocks
  ticking in nanoseconds and a steady reading of 7000000 ticks, the cell holds 7000000,
  where the millisecond count of the reading is 7.
\<close>

theorem update_v1_stores_raw_count:
  "steady_count (update_v1 (static_init_impl (\<lambda>b i. 7000000))) = 7000000
   \<and> duration_cast (nano_clocks steady_clock) milli
        (readings (static_init_impl (\<lambda>b i. 7000000)) steady_clock
          (reads (static_init_impl (\<lambda>b i. 7000000)) steady_clock)) = 7
   \<and> steady_count (update_v1 (static_init_impl (\<lambda>b i. 7000000))) \<noteq>
       duration_cast (nano_clocks steady_clock) milli
        (readings (static_init_impl (\<lambda>b i. 7000000)) steady_clock
          (reads (static_init_impl (\<lambda>b i. 7000000)) steady_clock))"
  by (simp add: update_v1_fields static_init_impl_def nano_clocks_def duration_cast_def
      nano_to_milli div_trunc_def signed_divide_int_def)

section \<open>Construction of the refresher\<close>

text \<open>
  C3. The constructor of the refresher (\<open>lowres_clock_impl\<close> in both versions of
  \<open>lowres_clock.hh\<close>, \<open>clock_impl\<close> in \<open>lowres_clocks.hh\<close>) performs one refresh
  itself, before it sets the callback and arms the periodic timer. So the first
  \<open>now()\<close> after construction never returns the unset content of a cell (the zero of
  static initialisation, or whatever the cell held before): it returns the millisecond
  count of the precise reading taken by that refresh, for every state \<open>w\<close> the
  constructor starts from.
\<close>

theorem constructor_refreshes_then_arms:
  "trace (lowres_clock_impl_v1 w) = trace w @
     [Clock_read system_clock, Clock_read steady_clock,
      Store system_clock (readings w system_clock (reads w system_clock)),
      Store steady_clock (readings w steady_clock (reads w steady_clock)),
      Timer_set_callback Impl_update, Timer_arm_periodic (Some Impl_update) granularity]
   \<and> fst (lowres_clock_now_v1 bp (lowres_clock_impl_v1 w)) =
       duration_cast (bp steady_clock) milli (readings w steady_clock (reads w steady_clock))
   \<and> fst (lowres_system_clock_now_v1 bp (lowres_clock_impl_v1 w)) =
       duration_cast (bp system_clock) milli (readings w system_clock (reads w system_clock))
   \<and> trace (lowres_clock_impl_v2 bp w) = trace w @
     [Clock_read system_clock, Clock_read steady_clock,
      Store system_clock
        (duration_cast (bp system_clock) milli (readings w system_clock (reads w system_clock))),
      Store steady_clock
        (duration_cast (bp steady_clock) milli (readings w steady_clock (reads w steady_clock))),
      Timer_set_callback Impl_update, Timer_arm_periodic (Some Impl_update) granularity]
   \<and> fst (lowres_clock_now_v2 (lowres_clock_impl_v2 bp w)) =
       duration_cast (bp steady_clock) milli (readings w steady_clock (reads w steady_clock))
   \<and> fst (lowres_system_clock_now_v2 (lowres_clock_impl_v2 bp w)) =
       duration_cast (bp system_clock) milli (readings w system_clock (reads w system_clock))
   \<and> trace (clock_impl_ctor b u) = trace u @
     [Clock_read b, Store b (readings u b (reads u b)),
      Timer_set_callback (Clock_impl_update b),
      Timer_arm_periodic (Some (Clock_impl_update b)) granularity]
   \<and> fst (clock_impl_now bp b (clock_impl_ctor b u)) =
       duration_cast (bp b) milli (readings u b (reads u b))"
  by (simp add: lowres_clock_impl_v1_def lowres_clock_impl_v2_def clock_impl_ctor_def
      impl_ctor_parts clock_impl_ctor_parts update_v1_fields update_v2_fields
      clock_impl_update_fields now_v1_values now_v2_values now_v3_values)

text \<open>
  From the state of static initialisation, where both counters are zero, and precise
  clocks reading 7000000 ns, the first \<open>now()\<close> of either clock after construction
  is 7 ms.
\<close>

lemma first_now_after_static_init:
  "fst (lowres_clock_now_v1 nano_clocks (lowres_clock_impl_v1 (static_init_impl two_readings))) = 7
   \<and> fst (lowres_system_clock_now_v1 nano_clocks
        (lowres_clock_impl_v1 (static_init_impl two_readings))) = 7
   \<and> steady_count (static_init_impl two_readings) = 0"
  by (simp add: now_v1_values ctor_v1_fields static_init_impl_def two_readings_def
      nano_clocks_def nano_to_milli_cast div_trunc_def signed_divide_int_def)

section \<open>Runs of a client\<close>

lemma step_no_tick:
  assumes "\<And>w. snd (steady_op V w) = w" and "\<And>w. snd (system_op V w) = w"
    and "\<not> is_tick c"
  shows "snd (step V c w) = w"
  using assms by (cases c) (simp_all add: split_beta)

lemma run_no_tick:
  assumes "\<And>w. snd (steady_op V w) = w" and "\<And>w. snd (system_op V w) = w"
    and "\<forall>c \<in> set cs. \<not> is_tick c"
  shows "snd (run V cs w) = w"
  using assms(3)
proof (induction cs arbitrary: w)
  case Nil
  then show ?case by simp
next
  case (Cons c cs)
  have "snd (step V c w) = w"
    using Cons.prems assms(1,2) by (intro step_no_tick) simp_all
  moreover have "snd (run V cs w) = w"
    using Cons.prems by (intro Cons.IH) simp
  ultimately show ?case by (simp add: split_beta)
qed

lemma run_invariant:
  assumes "\<And>w. snd (steady_op V w) = w" and "\<And>w. snd (system_op V w) = w"
    and "\<And>f w. I w \<Longrightarrow> I (on_tick V f w)"
    and "I w"
  shows "I (snd (run V cs w))"
  using assms(4)
proof (induction cs arbitrary: w)
  case Nil
  then show ?case by simp
next
  case (Cons c cs)
  have "I (snd (step V c w))"
  proof (cases "is_tick c")
    case True
    then obtain f where "c = Tick f" by (cases c) simp_all
    then show ?thesis using Cons.prems assms(3) by simp
  next
    case False
    then show ?thesis using Cons.prems assms(1,2) by (simp add: step_no_tick)
  qed
  then have "I (snd (run V cs (snd (step V c w))))" by (rule Cons.IH)
  then show ?case by (simp add: split_beta)
qed

lemma clocks_v1_ops:
  "snd (steady_op (clocks_v1 bp) w) = w" "snd (system_op (clocks_v1 bp) w) = w"
  "on_tick (clocks_v1 bp) f = update_v1"
  "fst (steady_op (clocks_v1 bp) w) = duration_cast (bp steady_clock) milli (steady_count w)"
  by (simp_all add: clocks_v1_def now_v1_values)

lemma clocks_v2_ops:
  "snd (steady_op (clocks_v2 bp) w) = w" "snd (system_op (clocks_v2 bp) w) = w"
  "on_tick (clocks_v2 bp) f = update_v2 bp"
  "fst (steady_op (clocks_v2 bp) w) = steady_count w"
  by (simp_all add: clocks_v2_def now_v2_values)

lemma clocks_v3_ops:
  "snd (steady_op (clocks_v3 bp) u) = u" "snd (system_op (clocks_v3 bp) u) = u"
  "on_tick (clocks_v3 bp) b = clock_impl_update b"
  "fst (steady_op (clocks_v3 bp) u) = duration_cast (bp steady_clock) milli (now_cell u steady_clock)"
  by (simp_all add: clocks_v3_def now_v3_values)

section \<open>Reads between two refreshes\<close>

text \<open>
  C5. For both cached clocks, two calls of \<open>now()\<close> between which no refresh
  (\<open>update()\<close>) occurs return identical time points, whatever other operations of
  the clocks are called in between: \<open>now()\<close> depends on the cached value only, and
  that value does not change between refreshes. This holds in both versions of
  \<open>lowres_clock.hh\<close> and in \<open>lowres_clocks.hh\<close>.
\<close>

theorem now_unchanged_without_refresh:
  assumes "\<forall>c \<in> set cs. \<not> is_tick c" and "\<forall>c \<in> set ds. \<not> is_tick c"
  shows "lowres_clock_now_v1 bp (snd (run (clocks_v1 bp) cs w)) = lowres_clock_now_v1 bp w
    \<and> lowres_system_clock_now_v1 bp (snd (run (clocks_v1 bp) cs w)) = lowres_system_clock_now_v1 bp w
    \<and> lowres_clock_now_v2 (snd (run (clocks_v2 bp) cs w)) = lowres_clock_now_v2 w
    \<and> lowres_system_clock_now_v2 (snd (run (clocks_v2 bp) cs w)) = lowres_system_clock_now_v2 w
    \<and> lowres_clock_now_v3 bp (snd (run (clocks_v3 bp) ds u)) = lowres_clock_now_v3 bp u
    \<and> lowres_system_clock_now_v3 bp (snd (run (clocks_v3 bp) ds u)) = lowres_system_clock_now_v3 bp u"
proof -
  have "snd (run (clocks_v1 bp) cs w) = w"
    using assms(1) by (intro run_no_tick) (simp_all add: clocks_v1_ops)
  moreover have "snd (run (clocks_v2 bp) cs w) = w"
    using assms(1) by (intro run_no_tick) (simp_all add: clocks_v2_ops)
  moreover have "snd (run (clocks_v3 bp) ds u) = u"
    using assms(2) by (intro run_no_tick) (simp_all add: clocks_v3_ops)
  ultimately show ?thesis by simp
qed

text \<open>
  After construction from a steady reading of 7000000 ns, \<open>lowres_clock::now()\<close> is
  7 ms before and after a sequence of other calls.
\<close>

theorem now_unchanged_without_refresh_witness:
  "lowres_clock_now_v1 nano_clocks
      (snd (run (clocks_v1 nano_clocks) [Lowres_system_now, To_time_t 5, From_time_t 7, Lowres_now]
        (lowres_clock_impl_v1 (static_init_impl two_readings))))
     = lowres_clock_now_v1 nano_clocks (lowres_clock_impl_v1 (static_init_impl two_readings))
   \<and> fst (lowres_clock_now_v1 nano_clocks (lowres_clock_impl_v1 (static_init_impl two_readings))) = 7"
proof -
  have h1: "\<forall>c \<in> set [Lowres_system_now, To_time_t 5, From_time_t 7, Lowres_now :: unit call].
      \<not> is_tick c"
    by simp
  have h2: "\<forall>c \<in> set [Lowres_now, From_time_t 7 :: base_clock call]. \<not> is_tick c"
    by simp
  have v: "fst (lowres_clock_now_v1 nano_clocks
      (lowres_clock_impl_v1 (static_init_impl two_readings))) = 7"
    by (simp add: now_v1_values ctor_v1_fields static_init_impl_def two_readings_def
        nano_clocks_def nano_to_milli_cast div_trunc_def signed_divide_int_def)
  have "lowres_clock_now_v1 nano_clocks
      (snd (run (clocks_v1 nano_clocks) [Lowres_system_now, To_time_t 5, From_time_t 7, Lowres_now]
        (lowres_clock_impl_v1 (static_init_impl two_readings))))
     = lowres_clock_now_v1 nano_clocks (lowres_clock_impl_v1 (static_init_impl two_readings))"
    using now_unchanged_without_refresh [OF h1 h2] by (rule conjunct1)
  then show ?thesis using v by (rule conjI)
qed

section \<open>\<open>from_time_t\<close> and the shared state\<close>

text \<open>
  C8. For every seconds value \<open>s\<close>, the time point \<open>from_time_t(s)\<close> depends on \<open>s\<close>
  only: called after any two runs, in any two versions and from any two states of the
  caches, it gives the same time point.
\<close>

theorem from_time_t_independent_of_state:
  "fst (step V (From_time_t s) (snd (run V cs w))) = [Calendar_time (from_time_t s)]
   \<and> fst (step V (From_time_t s) (snd (run V cs w))) =
       fst (step V' (From_time_t s) (snd (run V' cs' w')))"
  by simp

section \<open>The accessors do not write\<close>

text \<open>
  C9. None of \<open>lowres_clock::now()\<close>, \<open>lowres_system_clock::now()\<close>, \<open>to_time_t\<close> and
  \<open>from_time_t\<close> modifies a cached count: after any call that is not a refresh, the
  atomic cells hold what they held before.
\<close>

theorem accessors_leave_counts_unchanged:
  assumes "\<not> is_tick c" and "\<not> is_tick d"
  shows "system_count (snd (step (clocks_v1 bp) c w)) = system_count w
    \<and> steady_count (snd (step (clocks_v1 bp) c w)) = steady_count w
    \<and> system_count (snd (step (clocks_v2 bp) c w)) = system_count w
    \<and> steady_count (snd (step (clocks_v2 bp) c w)) = steady_count w
    \<and> now_cell (snd (step (clocks_v3 bp) d u)) = now_cell u
    \<and> now_v0 (snd (lowres_clock_now_v0 z)) = now_v0 z
    \<and> now_v0 (snd (lowres_system_clock_now_v0 bp z)) = now_v0 z"
proof -
  have "snd (step (clocks_v1 bp) c w) = w"
    using assms(1) by (intro step_no_tick) (simp_all add: clocks_v1_ops)
  moreover have "snd (step (clocks_v2 bp) c w) = w"
    using assms(1) by (intro step_no_tick) (simp_all add: clocks_v2_ops)
  moreover have "snd (step (clocks_v3 bp) d u) = u"
    using assms(2) by (intro step_no_tick) (simp_all add: clocks_v3_ops)
  moreover have "snd (lowres_clock_now_v0 z) = z"
    by (simp add: lowres_clock_now_v0_def lowres_clock_impl_now_v0_def)
  moreover have "snd (lowres_system_clock_now_v0 bp z) = z"
    by (simp add: lowres_system_clock_now_v0_def lowres_clock_now_v0_def
        lowres_clock_impl_now_v0_def)
  ultimately show ?thesis by simp
qed

text \<open>A call of \<open>lowres_clock::now()\<close> after construction leaves the steady count as it was.\<close>

theorem accessors_leave_counts_unchanged_witness:
  "steady_count (snd (step (clocks_v1 nano_clocks) Lowres_now
      (lowres_clock_impl_v1 (static_init_impl two_readings))))
     = steady_count (lowres_clock_impl_v1 (static_init_impl two_readings))
   \<and> steady_count (lowres_clock_impl_v1 (static_init_impl two_readings)) = 7000000"
proof -
  have h1: "\<not> is_tick (Lowres_now :: unit call)" by simp
  have h2: "\<not> is_tick (From_time_t 7 :: base_clock call)" by simp
  have v: "steady_count (lowres_clock_impl_v1 (static_init_impl two_readings)) = 7000000"
    by (simp add: ctor_v1_fields static_init_impl_def two_readings_def)
  have "steady_count (snd (step (clocks_v1 nano_clocks) Lowres_now
      (lowres_clock_impl_v1 (static_init_impl two_readings))))
     = steady_count (lowres_clock_impl_v1 (static_init_impl two_readings))"
    using accessors_leave_counts_unchanged [OF h1 h2] by (rule conjunct1 [OF conjunct2])
  then show ?thesis using v by (rule conjI)
qed

section \<open>Monotonicity of the steady clock\<close>

lemma steady_times_append: "steady_times (xs @ ys) = steady_times xs @ steady_times ys"
  by (induction xs rule: steady_times.induct) simp_all

lemma word_sle_trans: "(a :: rep) \<le>s b \<Longrightarrow> b \<le>s c \<Longrightarrow> a \<le>s c"
  by (simp add: word_sle_eq)

lemma run_steady_sorted:
  assumes "\<And>w. snd (steady_op V w) = w" and "\<And>w. snd (system_op V w) = w"
    and "\<And>f w. I w \<Longrightarrow> I (on_tick V f w)"
    and "\<And>f w. I w \<Longrightarrow> fst (steady_op V w) \<le>s fst (steady_op V (on_tick V f w))"
    and "I w"
  shows "sorted_wrt (\<le>s) (steady_times (fst (run V cs w)))
    \<and> (\<forall>t \<in> set (steady_times (fst (run V cs w))). fst (steady_op V w) \<le>s t)"
  using assms(5)
proof (induction cs arbitrary: w)
  case Nil
  then show ?case by simp
next
  case (Cons c cs)
  show ?case
  proof (cases c)
    case (Tick f)
    have I': "I (on_tick V f w)" using Cons.prems by (rule assms(3))
    have le: "fst (steady_op V w) \<le>s fst (steady_op V (on_tick V f w))"
      using Cons.prems by (rule assms(4))
    have "run V (c # cs) w = run V cs (on_tick V f w)"
      using Tick by (simp add: split_beta)
    then show ?thesis
      using Cons.IH [OF I'] le by (auto intro: word_sle_trans)
  next
    case Lowres_now
    have "steady_times (fst (run V (c # cs) w)) =
        fst (steady_op V w) # steady_times (fst (run V cs w))"
      using Lowres_now assms(1) [of w] by (simp add: split_beta)
    then show ?thesis
      using Cons.IH [OF Cons.prems] by (simp add: word_sle_eq)
  next
    case Lowres_system_now
    have "steady_times (fst (run V (c # cs) w)) = steady_times (fst (run V cs w))"
      using Lowres_system_now assms(2) [of w] by (simp add: split_beta)
    then show ?thesis
      using Cons.IH [OF Cons.prems] by simp
  next
    case (To_time_t t)
    then have "steady_times (fst (run V (c # cs) w)) = steady_times (fst (run V cs w))"
      by (simp add: split_beta)
    then show ?thesis
      using Cons.IH [OF Cons.prems] by simp
  next
    case (From_time_t t)
    then have "steady_times (fst (run V (c # cs) w)) = steady_times (fst (run V cs w))"
      by (simp add: split_beta)
    then show ?thesis
      using Cons.IH [OF Cons.prems] by simp
  qed
qed

lemma steady_sorted_v1:
  assumes mono: "\<forall>i j. i \<le> j \<longrightarrow> readings w steady_clock i \<le>s readings w steady_clock j"
    and p: "fst (ratio_divide (bp steady_clock) milli) = 1"
      "0 < snd (ratio_divide (bp steady_clock) milli)"
      "snd (ratio_divide (bp steady_clock) milli) < 2 ^ 63"
  shows "sorted_wrt (\<le>s) (steady_times (fst (run (clocks_v1 bp) cs (lowres_clock_impl_v1 w))))"
proof -
  define I :: "lowres_clock_impl \<Rightarrow> bool" where
    "I = (\<lambda>x. readings x = readings w
      \<and> (\<forall>i. reads x steady_clock \<le> i \<longrightarrow> steady_count x \<le>s readings w steady_clock i))"
  have init: "I (lowres_clock_impl_v1 w)"
    using mono by (simp add: I_def ctor_v1_fields)
  have keep: "\<And>f x. I x \<Longrightarrow> I (on_tick (clocks_v1 bp) f x)"
    using mono by (simp add: I_def clocks_v1_ops update_v1_fields)
  have up: "\<And>f x. I x \<Longrightarrow>
      fst (steady_op (clocks_v1 bp) x) \<le>s fst (steady_op (clocks_v1 bp) (on_tick (clocks_v1 bp) f x))"
    using p by (simp add: I_def clocks_v1_ops update_v1_fields duration_cast_mono)
  show ?thesis
    using run_steady_sorted [of "clocks_v1 bp" I, OF _ _ keep up init]
    by (simp add: clocks_v1_ops)
qed

lemma steady_sorted_v2:
  assumes mono: "\<forall>i j. i \<le> j \<longrightarrow> readings w steady_clock i \<le>s readings w steady_clock j"
    and p: "fst (ratio_divide (bp steady_clock) milli) = 1"
      "0 < snd (ratio_divide (bp steady_clock) milli)"
      "snd (ratio_divide (bp steady_clock) milli) < 2 ^ 63"
  shows "sorted_wrt (\<le>s) (steady_times (fst (run (clocks_v2 bp) cs (lowres_clock_impl_v2 bp w))))"
proof -
  define I :: "lowres_clock_impl \<Rightarrow> bool" where
    "I = (\<lambda>x. readings x = readings w
      \<and> (\<forall>i. reads x steady_clock \<le> i \<longrightarrow>
          steady_count x \<le>s duration_cast (bp steady_clock) milli (readings w steady_clock i)))"
  have init: "I (lowres_clock_impl_v2 bp w)"
    using mono p by (simp add: I_def ctor_v2_fields duration_cast_mono)
  have keep: "\<And>f x. I x \<Longrightarrow> I (on_tick (clocks_v2 bp) f x)"
    using mono p by (simp add: I_def clocks_v2_ops update_v2_fields duration_cast_mono)
  have up: "\<And>f x. I x \<Longrightarrow>
      fst (steady_op (clocks_v2 bp) x) \<le>s fst (steady_op (clocks_v2 bp) (on_tick (clocks_v2 bp) f x))"
    by (simp add: I_def clocks_v2_ops update_v2_fields)
  show ?thesis
    using run_steady_sorted [of "clocks_v2 bp" I, OF _ _ keep up init]
    by (simp add: clocks_v2_ops)
qed

lemma steady_sorted_v3:
  assumes mono: "\<forall>i j. i \<le> j \<longrightarrow> readings u steady_clock i \<le>s readings u steady_clock j"
    and p: "fst (ratio_divide (bp steady_clock) milli) = 1"
      "0 < snd (ratio_divide (bp steady_clock) milli)"
      "snd (ratio_divide (bp steady_clock) milli) < 2 ^ 63"
  shows "sorted_wrt (\<le>s)
    (steady_times (fst (run (clocks_v3 bp) ds (clock_impl_ctor steady_clock u))))"
proof -
  define I :: "clock_impl \<Rightarrow> bool" where
    "I = (\<lambda>x. readings x = readings u
      \<and> (\<forall>i. reads x steady_clock \<le> i \<longrightarrow>
          now_cell x steady_clock \<le>s readings u steady_clock i))"
  have init: "I (clock_impl_ctor steady_clock u)"
    using mono by (simp add: I_def ctor_v3_fields)
  have keep: "\<And>f x. I x \<Longrightarrow> I (on_tick (clocks_v3 bp) f x)"
    using mono by (simp add: I_def clocks_v3_ops clock_impl_update_fields)
  have up: "\<And>f x. I x \<Longrightarrow>
      fst (steady_op (clocks_v3 bp) x) \<le>s fst (steady_op (clocks_v3 bp) (on_tick (clocks_v3 bp) f x))"
    using p by (simp add: I_def clocks_v3_ops clock_impl_update_fields duration_cast_mono)
  show ?thesis
    using run_steady_sorted [of "clocks_v3 bp" I, OF _ _ keep up init]
    by (simp add: clocks_v3_ops)
qed

text \<open>
  C4. When the readings of the precise steady clock never decrease, the results of
  successive calls of \<open>lowres_clock::now()\<close> after construction, interleaved in any
  way with refreshes and other calls, never decrease either. The steady clock is taken
  to tick in a whole fraction of a millisecond (conversion factor \<open>1 / d\<close>, as for
  nanoseconds), so that the conversion to milliseconds is a division.
\<close>

theorem steady_now_never_goes_back:
  assumes "\<forall>i j. i \<le> j \<longrightarrow> readings w steady_clock i \<le>s readings w steady_clock j"
    and "\<forall>i j. i \<le> j \<longrightarrow> readings u steady_clock i \<le>s readings u steady_clock j"
    and "fst (ratio_divide (bp steady_clock) milli) = 1"
    and "0 < snd (ratio_divide (bp steady_clock) milli)"
    and "snd (ratio_divide (bp steady_clock) milli) < 2 ^ 63"
  shows "sorted_wrt (\<le>s) (steady_times (fst (run (clocks_v1 bp) cs (lowres_clock_impl_v1 w))))
    \<and> sorted_wrt (\<le>s) (steady_times (fst (run (clocks_v2 bp) cs (lowres_clock_impl_v2 bp w))))
    \<and> sorted_wrt (\<le>s)
        (steady_times (fst (run (clocks_v3 bp) ds (clock_impl_ctor steady_clock u))))"
  using assms by (simp add: steady_sorted_v1 steady_sorted_v2 steady_sorted_v3)

text \<open>
  With nanosecond clocks reading 7000000 and then 19000000: a read, a refresh, a read
  give 7 ms and then 19 ms.
\<close>

theorem steady_now_never_goes_back_witness:
  "steady_times (fst (run (clocks_v1 nano_clocks) [Lowres_now, Tick (), Lowres_now]
      (lowres_clock_impl_v1 (static_init_impl two_readings)))) = [7, 19]
   \<and> sorted_wrt (\<le>s) (steady_times (fst (run (clocks_v1 nano_clocks)
        [Lowres_now, Tick (), Lowres_now] (lowres_clock_impl_v1 (static_init_impl two_readings)))))
   \<and> sorted_wrt (\<le>s) (steady_times (fst (run (clocks_v2 nano_clocks)
        [Lowres_now, Tick (), Lowres_now]
        (lowres_clock_impl_v2 nano_clocks (static_init_impl two_readings)))))
   \<and> sorted_wrt (\<le>s) (steady_times (fst (run (clocks_v3 nano_clocks)
        [Lowres_now, Tick steady_clock, Lowres_now]
        (clock_impl_ctor steady_clock (static_init_clock_impl two_readings)))))"
proof -
  have h1: "\<forall>i j. i \<le> j \<longrightarrow> readings (static_init_impl two_readings) steady_clock i
      \<le>s readings (static_init_impl two_readings) steady_clock j"
    by (simp add: static_init_impl_def two_readings_def word_sle_eq)
  have h2: "\<forall>i j. i \<le> j \<longrightarrow> readings (static_init_clock_impl two_readings) steady_clock i
      \<le>s readings (static_init_clock_impl two_readings) steady_clock j"
    by (simp add: static_init_clock_impl_def two_readings_def word_sle_eq)
  have h3: "fst (ratio_divide (nano_clocks steady_clock) milli) = 1"
    by (simp add: nano_clocks_def nano_to_milli)
  have h4: "0 < snd (ratio_divide (nano_clocks steady_clock) milli)"
    by (simp add: nano_clocks_def nano_to_milli)
  have h5: "snd (ratio_divide (nano_clocks steady_clock) milli) < 2 ^ 63"
    by (simp add: nano_clocks_def nano_to_milli)
  have v: "steady_times (fst (run (clocks_v1 nano_clocks) [Lowres_now, Tick (), Lowres_now]
      (lowres_clock_impl_v1 (static_init_impl two_readings)))) = [7, 19]"
    by (simp add: split_beta clocks_v1_ops ctor_v1_fields update_v1_fields
        static_init_impl_def two_readings_def nano_clocks_def duration_cast_def nano_to_milli
        div_trunc_def signed_divide_int_def)
  show ?thesis
    using v steady_now_never_goes_back [where w = "static_init_impl two_readings"
        and u = "static_init_clock_impl two_readings" and bp = nano_clocks
        and cs = "[Lowres_now, Tick (), Lowres_now]"
        and ds = "[Lowres_now, Tick steady_clock, Lowres_now]", OF h1 h2 h3 h4 h5]
    by simp
qed

section \<open>Where the cached values come from\<close>

lemma update_v1_caches_readings:
  "system_count (update_v1 x) \<in> set (past_readings system_clock (update_v1 x))"
  "steady_count (update_v1 x) \<in> set (past_readings steady_clock (update_v1 x))"
  by (simp_all add: past_readings_def update_v1_fields)

lemma update_v2_caches_readings:
  "system_count (update_v2 bp x)
     \<in> set (map (duration_cast (bp system_clock) milli) (past_readings system_clock (update_v2 bp x)))"
  "steady_count (update_v2 bp x)
     \<in> set (map (duration_cast (bp steady_clock) milli) (past_readings steady_clock (update_v2 bp x)))"
  by (simp_all add: past_readings_def update_v2_fields)

lemma clock_impl_update_caches_readings:
  assumes "now_cell x b \<in> set (past_readings b x)"
  shows "now_cell (clock_impl_update b' x) b \<in> set (past_readings b (clock_impl_update b' x))"
  using assms by (simp add: past_readings_def clock_impl_update_fields)

lemma cached_is_reading_v1:
  "system_count (snd (run (clocks_v1 bp) cs (lowres_clock_impl_v1 w)))
     \<in> set (past_readings system_clock (snd (run (clocks_v1 bp) cs (lowres_clock_impl_v1 w))))
   \<and> steady_count (snd (run (clocks_v1 bp) cs (lowres_clock_impl_v1 w)))
     \<in> set (past_readings steady_clock (snd (run (clocks_v1 bp) cs (lowres_clock_impl_v1 w))))"
proof -
  define I :: "lowres_clock_impl \<Rightarrow> bool" where
    "I = (\<lambda>x. system_count x \<in> set (past_readings system_clock x)
      \<and> steady_count x \<in> set (past_readings steady_clock x))"
  have init: "I (lowres_clock_impl_v1 w)"
    unfolding I_def by (simp add: past_readings_def ctor_v1_fields)
  have keep: "\<And>f x. I x \<Longrightarrow> I (on_tick (clocks_v1 bp) f x)"
    unfolding I_def clocks_v1_ops by (intro conjI update_v1_caches_readings)
  have "I (snd (run (clocks_v1 bp) cs (lowres_clock_impl_v1 w)))"
    by (rule run_invariant [of "clocks_v1 bp" I, OF _ _ keep init]) (simp_all add: clocks_v1_ops)
  then show ?thesis unfolding I_def .
qed

lemma cached_is_reading_v2:
  "system_count (snd (run (clocks_v2 bp) cs (lowres_clock_impl_v2 bp w)))
     \<in> set (map (duration_cast (bp system_clock) milli)
         (past_readings system_clock (snd (run (clocks_v2 bp) cs (lowres_clock_impl_v2 bp w)))))
   \<and> steady_count (snd (run (clocks_v2 bp) cs (lowres_clock_impl_v2 bp w)))
     \<in> set (map (duration_cast (bp steady_clock) milli)
         (past_readings steady_clock (snd (run (clocks_v2 bp) cs (lowres_clock_impl_v2 bp w)))))"
proof -
  define I :: "lowres_clock_impl \<Rightarrow> bool" where
    "I = (\<lambda>x. system_count x
        \<in> set (map (duration_cast (bp system_clock) milli) (past_readings system_clock x))
      \<and> steady_count x
        \<in> set (map (duration_cast (bp steady_clock) milli) (past_readings steady_clock x)))"
  have init: "I (lowres_clock_impl_v2 bp w)"
    unfolding I_def by (simp add: past_readings_def ctor_v2_fields)
  have keep: "\<And>f x. I x \<Longrightarrow> I (on_tick (clocks_v2 bp) f x)"
    unfolding I_def clocks_v2_ops by (intro conjI update_v2_caches_readings)
  have "I (snd (run (clocks_v2 bp) cs (lowres_clock_impl_v2 bp w)))"
    by (rule run_invariant [of "clocks_v2 bp" I, OF _ _ keep init]) (simp_all add: clocks_v2_ops)
  then show ?thesis unfolding I_def .
qed

lemma cached_is_reading_v3:
  "now_cell (snd (run (clocks_v3 bp) ds (clock_impl_ctor b u))) b
     \<in> set (past_readings b (snd (run (clocks_v3 bp) ds (clock_impl_ctor b u))))"
proof -
  define I :: "clock_impl \<Rightarrow> bool" where
    "I = (\<lambda>x. now_cell x b \<in> set (past_readings b x))"
  have init: "I (clock_impl_ctor b u)"
    unfolding I_def by (simp add: past_readings_def ctor_v3_fields)
  have keep: "\<And>f x. I x \<Longrightarrow> I (on_tick (clocks_v3 bp) f x)"
    unfolding I_def clocks_v3_ops by (rule clock_impl_update_caches_readings)
  have "I (snd (run (clocks_v3 bp) ds (clock_impl_ctor b u)))"
    by (rule run_invariant [of "clocks_v3 bp" I, OF _ _ keep init]) (simp_all add: clocks_v3_ops)
  then show ?thesis unfolding I_def .
qed

lemma now_v0_value:
  "fst (lowres_system_clock_now_v0 bp z) =
     duration_cast (bp system_clock) milli
       (base z + duration_cast milli (bp system_clock) (now_v0 z - ref z))"
  by (simp add: lowres_system_clock_now_v0_def lowres_clock_now_v0_def
      lowres_clock_impl_now_v0_def)

text \<open>
  C1 (as amended). In both versions of \<open>lowres_clock.hh\<close> and in \<open>lowres_clocks.hh\<close>,
  at any moment after construction each cached count is a reading that the
  corresponding precise clock produced at a past refresh (in the second version of
  \<open>lowres_clock.hh\<close>: its millisecond count), and \<open>now()\<close> returns the millisecond
  count of that cached value. In \<open>lowres_system_clock.hh\<close>,
  \<open>lowres_system_clock::now()\<close> is instead computed from the cached steady time:
  \<open>_base\<close> plus the steady time elapsed since \<open>_ref\<close>.
\<close>

theorem cached_value_is_precise_reading:
  "system_count (snd (run (clocks_v1 bp) cs (lowres_clock_impl_v1 w)))
     \<in> set (past_readings system_clock (snd (run (clocks_v1 bp) cs (lowres_clock_impl_v1 w))))
   \<and> steady_count (snd (run (clocks_v1 bp) cs (lowres_clock_impl_v1 w)))
     \<in> set (past_readings steady_clock (snd (run (clocks_v1 bp) cs (lowres_clock_impl_v1 w))))
   \<and> fst (lowres_system_clock_now_v1 bp x) = duration_cast (bp system_clock) milli (system_count x)
   \<and> fst (lowres_clock_now_v1 bp x) = duration_cast (bp steady_clock) milli (steady_count x)
   \<and> system_count (snd (run (clocks_v2 bp) cs (lowres_clock_impl_v2 bp w)))
     \<in> set (map (duration_cast (bp system_clock) milli)
         (past_readings system_clock (snd (run (clocks_v2 bp) cs (lowres_clock_impl_v2 bp w)))))
   \<and> steady_count (snd (run (clocks_v2 bp) cs (lowres_clock_impl_v2 bp w)))
     \<in> set (map (duration_cast (bp steady_clock) milli)
         (past_readings steady_clock (snd (run (clocks_v2 bp) cs (lowres_clock_impl_v2 bp w)))))
   \<and> fst (lowres_system_clock_now_v2 x) = system_count x
   \<and> fst (lowres_clock_now_v2 x) = steady_count x
   \<and> now_cell (snd (run (clocks_v3 bp) ds (clock_impl_ctor b u))) b
     \<in> set (past_readings b (snd (run (clocks_v3 bp) ds (clock_impl_ctor b u))))
   \<and> fst (clock_impl_now bp b y) = duration_cast (bp b) milli (now_cell y b)
   \<and> fst (lowres_clock_now_v0 z) = now_v0 z
   \<and> fst (lowres_system_clock_now_v0 bp z) =
       duration_cast (bp system_clock) milli
         (base z + duration_cast milli (bp system_clock) (now_v0 z - ref z))"
  using cached_is_reading_v1 [of bp cs w] cached_is_reading_v2 [of bp cs w]
    cached_is_reading_v3 [of bp ds b u]
  by (simp add: now_v1_values now_v2_values now_v3_values now_v0_value
      lowres_clock_now_v0_def lowres_clock_impl_now_v0_def)

lemma example_v0_now:
  "fst (lowres_system_clock_now_v0 nano_clocks example_v0) = 1700000000010"
  by (simp add: now_v0_value example_v0_def nano_clocks_def nano_to_milli_cast
      milli_to_nano_cast div_trunc_def signed_divide_int_def)

lemma example_v0_readings:
  "map (duration_cast (nano_clocks system_clock) milli) (past_readings system_clock example_v0)
     = [1700000000000]"
  by (simp add: example_v0_def past_readings_def nano_clocks_def nano_to_milli_cast
      div_trunc_def signed_divide_int_def)

text \<open>
  In the \<open>lowres_system_clock.hh\<close> version the value of
  \<open>lowres_system_clock::now()\<close> need not come from any reading of the system clock:
  in \<open>example_v0\<close> it is 1700000000010 ms, synthesized from the steady cache, where
  the only reading of the system clock is 1700000000000 ms.
\<close>

theorem system_now_v0_not_a_system_reading:
  "fst (lowres_system_clock_now_v0 nano_clocks example_v0)
     \<notin> set (map (duration_cast (nano_clocks system_clock) milli)
         (past_readings system_clock example_v0))"
  by (simp add: example_v0_now example_v0_readings)

section \<open>The versions of \<open>lowres_clock::now()\<close> against one another\<close>

lemma run_simulation:
  assumes "\<And>x. snd (steady_op V x) = x" and "\<And>x. snd (system_op V x) = x"
    and "\<And>y. snd (steady_op V' y) = y" and "\<And>y. snd (system_op V' y) = y"
    and "\<And>f x y. R x y \<Longrightarrow> R (on_tick V f x) (on_tick V' f y)"
    and "\<And>x y. R x y \<Longrightarrow> fst (steady_op V x) = fst (steady_op V' y)"
    and "\<And>x y. R x y \<Longrightarrow> fst (system_op V x) = fst (system_op V' y)"
    and "R x y"
  shows "fst (run V cs x) = fst (run V' cs y)"
  using assms(8)
proof (induction cs arbitrary: x y)
  case Nil
  then show ?case by simp
next
  case (Cons c cs)
  show ?case
  proof (cases c)
    case (Tick f)
    have "R (on_tick V f x) (on_tick V' f y)" using Cons.prems by (rule assms(5))
    then have "fst (run V cs (on_tick V f x)) = fst (run V' cs (on_tick V' f y))"
      by (rule Cons.IH)
    then show ?thesis using Tick by (simp add: split_beta)
  next
    case Lowres_now
    have "fst (run V cs x) = fst (run V' cs y)" using Cons.prems by (rule Cons.IH)
    then show ?thesis
      using Lowres_now assms(1) [of x] assms(3) [of y] assms(6) [OF Cons.prems]
      by (simp add: split_beta)
  next
    case Lowres_system_now
    have "fst (run V cs x) = fst (run V' cs y)" using Cons.prems by (rule Cons.IH)
    then show ?thesis
      using Lowres_system_now assms(2) [of x] assms(4) [of y] assms(7) [OF Cons.prems]
      by (simp add: split_beta)
  next
    case (To_time_t t)
    have "fst (run V cs x) = fst (run V' cs y)" using Cons.prems by (rule Cons.IH)
    then show ?thesis using To_time_t by (simp add: split_beta)
  next
    case (From_time_t t)
    have "fst (run V cs x) = fst (run V' cs y)" using Cons.prems by (rule Cons.IH)
    then show ?thesis using From_time_t by (simp add: split_beta)
  qed
qed

lemma clocks_ops_system:
  "fst (system_op (clocks_v1 bp) w) = duration_cast (bp system_clock) milli (system_count w)"
  "fst (system_op (clocks_v2 bp) w) = system_count w"
  "fst (system_op (clocks_v3 bp) u) = duration_cast (bp system_clock) milli (now_cell u system_clock)"
  by (simp_all add: clocks_v1_def clocks_v2_def clocks_v3_def now_v1_values now_v2_values
      now_v3_values)

lemma runs_v1_v2_agree:
  "fst (run (clocks_v1 bp) cs (lowres_clock_impl_v1 w)) =
   fst (run (clocks_v2 bp) cs (lowres_clock_impl_v2 bp w))"
proof -
  define R :: "lowres_clock_impl \<Rightarrow> lowres_clock_impl \<Rightarrow> bool" where
    "R = (\<lambda>x y. readings x = readings y \<and> reads x = reads y
      \<and> steady_count y = duration_cast (bp steady_clock) milli (steady_count x)
      \<and> system_count y = duration_cast (bp system_clock) milli (system_count x))"
  have init: "R (lowres_clock_impl_v1 w) (lowres_clock_impl_v2 bp w)"
    by (simp add: R_def ctor_v1_fields ctor_v2_fields)
  have tick: "\<And>f x y. R x y \<Longrightarrow> R (on_tick (clocks_v1 bp) f x) (on_tick (clocks_v2 bp) f y)"
    by (simp add: R_def clocks_v1_ops clocks_v2_ops update_v1_fields update_v2_fields)
  have st: "\<And>x y. R x y \<Longrightarrow> fst (steady_op (clocks_v1 bp) x) = fst (steady_op (clocks_v2 bp) y)"
    by (simp add: R_def clocks_v1_ops clocks_v2_ops)
  have sy: "\<And>x y. R x y \<Longrightarrow> fst (system_op (clocks_v1 bp) x) = fst (system_op (clocks_v2 bp) y)"
    by (simp add: R_def clocks_ops_system)
  show ?thesis
    by (rule run_simulation [of "clocks_v1 bp" "clocks_v2 bp" R, OF _ _ _ _ tick st sy init])
      (simp_all add: clocks_v1_ops clocks_v2_ops)
qed

text \<open>
  C7. When the caches of the three versions are refreshed from the same reading of the
  precise steady clock, \<open>lowres_clock::now()\<close> returns the same time point in all
  three: in the version that converts when reading (\<open>lowres_clock.hh\<close>, first), in the
  version that converts when storing (\<open>lowres_clock.hh\<close>, second) and in the template
  \<open>clock_impl\<close> (\<open>lowres_clocks.hh\<close>). Moreover a client cannot tell the two
  versions of \<open>lowres_clock.hh\<close> apart: after construction, the same sequence of
  calls and timer ticks gives the same observations in both.
\<close>

theorem variants_of_now_agree:
  assumes "readings w1 steady_clock (reads w1 steady_clock) = r"
    and "readings w2 steady_clock (reads w2 steady_clock) = r"
    and "readings w3 steady_clock (reads w3 steady_clock) = r"
  shows "fst (lowres_clock_now_v1 bp (update_v1 w1)) = fst (lowres_clock_now_v2 (update_v2 bp w2))
    \<and> fst (lowres_clock_now_v2 (update_v2 bp w2)) =
        fst (lowres_clock_now_v3 bp (clock_impl_update steady_clock w3))
    \<and> fst (run (clocks_v1 bp) cs (lowres_clock_impl_v1 w)) =
        fst (run (clocks_v2 bp) cs (lowres_clock_impl_v2 bp w))"
  using assms runs_v1_v2_agree [of bp cs w]
  by (simp add: update_v1_fields update_v2_fields clock_impl_update_fields now_v1_values
      now_v2_values now_v3_values)

theorem variants_of_now_agree_witness:
  "readings (static_init_impl (\<lambda>b i. 7000000)) steady_clock
      (reads (static_init_impl (\<lambda>b i. 7000000)) steady_clock) = 7000000
   \<and> readings (static_init_clock_impl (\<lambda>b i. 7000000)) steady_clock
      (reads (static_init_clock_impl (\<lambda>b i. 7000000)) steady_clock) = 7000000
   \<and> fst (lowres_clock_now_v1 nano_clocks (update_v1 (static_init_impl (\<lambda>b i. 7000000)))) =
      fst (lowres_clock_now_v2 (update_v2 nano_clocks (static_init_impl (\<lambda>b i. 7000000))))
   \<and> fst (lowres_clock_now_v2 (update_v2 nano_clocks (static_init_impl (\<lambda>b i. 7000000)))) =
      fst (lowres_clock_now_v3 nano_clocks
        (clock_impl_update steady_clock (static_init_clock_impl (\<lambda>b i. 7000000))))"
proof -
  have h1: "readings (static_init_impl (\<lambda>b i. 7000000)) steady_clock
      (reads (static_init_impl (\<lambda>b i. 7000000)) steady_clock) = 7000000"
    by (simp add: static_init_impl_def)
  have h3: "readings (static_init_clock_impl (\<lambda>b i. 7000000)) steady_clock
      (reads (static_init_clock_impl (\<lambda>b i. 7000000)) steady_clock) = 7000000"
    by (simp add: static_init_clock_impl_def)
  show ?thesis
    using h1 h3 variants_of_now_agree [OF h1 h1 h3, of nano_clocks] by simp
qed

end
